theory Spec2Isabelle
  imports Main
begin

section \<open>The Pomodoro timer of core/pomodoro.py\<close>

text \<open>
  The class \<^verbatim>\<open>PomodoroTimer\<close> is used from two sides: the caller's thread invokes
  \<^verbatim>\<open>start\<close>, \<^verbatim>\<open>pause\<close>, \<^verbatim>\<open>resume\<close>, \<^verbatim>\<open>cancel\<close> and \<^verbatim>\<open>is_running\<close>, and every successful
  \<^verbatim>\<open>start\<close> creates a thread that executes \<^verbatim>\<open>_run_timer\<close>.  The model is an interleaving
  semantics: the object's fields, the rows of the \<^verbatim>\<open>sessions\<close> table, the console and
  the engine threads (each with its program counter and the locals of its
  \<^verbatim>\<open>_run_timer\<close> frame) form one state, and an event is either a call of a public method
  or one statement of one engine thread.  The public methods that take \<^verbatim>\<open>self._lock\<close>
  and the body of the countdown loop, which holds the same lock, exclude each other and
  are single events.
\<close>

subsection \<open>Data\<close>

text \<open>The two values of the column \<^verbatim>\<open>type\<close>: the strings "trabajo" and "descanso".\<close>

datatype session_kind = Trabajo | Descanso

text \<open>
  A timestamp is the reading of the wall clock, \<^verbatim>\<open>datetime.now().isoformat()\<close>, kept
  abstract as the number of seconds slept since the object was created.
\<close>

type_synonym timestamp = nat

text \<open>
  One row of the table \<^verbatim>\<open>sessions\<close> of core/database.py.  The column \<^verbatim>\<open>start_time\<close>
  is \<^verbatim>\<open>NOT NULL\<close>, the column \<^verbatim>\<open>end_time\<close> may be null.
\<close>

record session_row =
  row_task_id :: int
  row_start_time :: timestamp
  row_end_time :: "timestamp option"
  row_duration_minutes :: int
  row_type :: session_kind

text \<open>The lines the program prints, one constructor for each \<^verbatim>\<open>print\<close>.\<close>

datatype msg =
    MsgIniciando session_kind int int
  | MsgRestantes session_kind int int
  | MsgCompletada session_kind
  | MsgIniciandoDescanso
  | MsgCancelada session_kind
  | MsgPausado
  | MsgReanudado
  | MsgErrorGuardar

text \<open>
  The program counter of an engine thread, named after the line of core/pomodoro.py it
  is about to execute.  \<open>L76\<close> and \<open>L76r\<close> are the two operands of the loop condition
  (\<^verbatim>\<open>and\<close> reads \<^verbatim>\<open>_remaining_time\<close> first and \<^verbatim>\<open>_is_running\<close> only if the first holds);
  \<open>L77\<close> is the body of the loop under the lock; \<open>Done\<close> is a thread whose
  \<^verbatim>\<open>_run_timer\<close> returned and \<open>Crashed\<close> one that an uncaught exception ended.
\<close>

datatype pc =
    L63 | L64 | L65 | L66 | L67 | L69 | L74
  | L76 | L76r | L77
  | L96 | L97 | L100
  | L107 | L109 | L110
  | Done | Crashed

record thread =
  pc :: pc
  duration :: int
  kind :: session_kind

text \<open>
  The fields of a \<^verbatim>\<open>PomodoroTimer\<close> (\<open>is_running_flag\<close> is the field \<^verbatim>\<open>_is_running\<close>,
  the method is \<open>is_running\<close> below), followed by its environment: the threads started
  so far, the table, the console and the clock.
\<close>

record pomodoro =
  task_id :: int
  work_seconds :: int
  break_seconds :: int
  timer_thread :: "nat option"
  is_running_flag :: bool
  is_paused :: bool
  remaining_time :: int
  session_type :: session_kind
  start_time :: "timestamp option"
  session_id :: "nat option"
  threads :: "thread list"
  sessions :: "session_row list"
  console :: "msg list"
  clock :: timestamp

text \<open>\<^verbatim>\<open>__init__\<close>, with an empty table and console.\<close>

definition PomodoroTimer :: "int \<Rightarrow> int \<Rightarrow> int \<Rightarrow> pomodoro" where
  "PomodoroTimer tid work_min break_min =
     \<lparr>task_id = tid,
      work_seconds = work_min * 60,
      break_seconds = break_min * 60,
      timer_thread = None,
      is_running_flag = False,
      is_paused = False,
      remaining_time = 0,
      session_type = Trabajo,
      start_time = None,
      session_id = None,
      threads = [],
      sessions = [],
      console = [],
      clock = 0\<rparr>"

subsection \<open>Writing a session\<close>

text \<open>
  What the store does with one call of \<^verbatim>\<open>_save_session\<close>: it works, or
  \<^verbatim>\<open>get_connection()\<close> raises (line 38, before the \<^verbatim>\<open>try\<close>), or the \<^verbatim>\<open>INSERT\<close> or the
  \<^verbatim>\<open>commit\<close> raises (lines 44 to 54, inside the \<^verbatim>\<open>try\<close>).
\<close>

datatype store_outcome = StoreOk | ConnectFails | WriteFails

datatype exn = ConnectionError

text \<open>
  \<^verbatim>\<open>_save_session\<close>.  \<open>Inl\<close> is an exception that leaves the method.  An absent
  \<^verbatim>\<open>end_time\<close> is replaced by the current time (lines 41 and 42).  An \<^verbatim>\<open>INSERT\<close> with
  a null \<^verbatim>\<open>start_time\<close> violates the column's constraint; the \<^verbatim>\<open>except\<close> clause
  catches that as it catches every failure of the write, and prints.
\<close>

definition save_session ::
  "store_outcome \<Rightarrow> int \<Rightarrow> session_kind \<Rightarrow> timestamp option \<Rightarrow> pomodoro \<Rightarrow> exn + pomodoro" where
  "save_session oc duration_minutes stype end_time s =
     (case oc of
        ConnectFails \<Rightarrow> Inl ConnectionError
      | WriteFails \<Rightarrow> Inr (s\<lparr>console := console s @ [MsgErrorGuardar]\<rparr>)
      | StoreOk \<Rightarrow>
          (let end_time' = (case end_time of None \<Rightarrow> clock s | Some e \<Rightarrow> e) in
           case start_time s of
             None \<Rightarrow> Inr (s\<lparr>console := console s @ [MsgErrorGuardar]\<rparr>)
           | Some st \<Rightarrow>
               Inr (s\<lparr>sessions := sessions s @
                         [\<lparr>row_task_id = task_id s,
                           row_start_time = st,
                           row_end_time = Some end_time',
                           row_duration_minutes = duration_minutes,
                           row_type = stype\<rparr>],
                       session_id := Some (Suc (length (sessions s)))\<rparr>)))"

subsection \<open>The engine\<close>

text \<open>
  Lines 77 to 93: one pass through the body of the loop, under the lock.  Both branches
  sleep one second.
\<close>

definition loop_body :: "thread \<Rightarrow> pomodoro \<Rightarrow> pomodoro" where
  "loop_body t s =
     (if \<not> is_paused s then
        (let r = remaining_time s;
             s1 = (if r mod 5 = 0 \<or> r = duration t \<or> r \<le> 5
                   then s\<lparr>console := console s @ [MsgRestantes (kind t) (r div 60) (r mod 60)]\<rparr>
                   else s)
         in s1\<lparr>clock := Suc (clock s1), remaining_time := remaining_time s1 - 1\<rparr>)
      else s\<lparr>clock := Suc (clock s)\<rparr>)"

text \<open>
  One statement of \<^verbatim>\<open>_run_timer\<close>, by the line the thread is at.  The recursive call of
  line 105 is the last statement of its frame, so the thread continues at line 63 with
  the arguments of the call.
\<close>

fun run_timer_at :: "pc \<Rightarrow> store_outcome \<Rightarrow> thread \<Rightarrow> pomodoro \<Rightarrow> thread \<times> pomodoro" where
  "run_timer_at L63 oc t s = (t\<lparr>pc := L64\<rparr>, s\<lparr>remaining_time := duration t\<rparr>)"
| "run_timer_at L64 oc t s = (t\<lparr>pc := L65\<rparr>, s\<lparr>session_type := kind t\<rparr>)"
| "run_timer_at L65 oc t s = (t\<lparr>pc := L66\<rparr>, s\<lparr>is_running_flag := True\<rparr>)"
| "run_timer_at L66 oc t s = (t\<lparr>pc := L67\<rparr>, s\<lparr>is_paused := False\<rparr>)"
| "run_timer_at L67 oc t s = (t\<lparr>pc := L69\<rparr>, s\<lparr>start_time := Some (clock s)\<rparr>)"
| "run_timer_at L69 oc t s =
     (t\<lparr>pc := L74\<rparr>,
      s\<lparr>console := console s @ [MsgIniciando (kind t) (task_id s) (duration t div 60)]\<rparr>)"
| "run_timer_at L74 oc t s =
     (case save_session oc (duration t div 60) (kind t) None s of
        Inl e \<Rightarrow> (t\<lparr>pc := Crashed\<rparr>, s)
      | Inr s' \<Rightarrow> (t\<lparr>pc := L76\<rparr>, s'))"
| "run_timer_at L76 oc t s = (t\<lparr>pc := (if remaining_time s > 0 then L76r else L96)\<rparr>, s)"
| "run_timer_at L76r oc t s = (t\<lparr>pc := (if is_running_flag s then L77 else L96)\<rparr>, s)"
| "run_timer_at L77 oc t s = (t\<lparr>pc := L76\<rparr>, loop_body t s)"
| "run_timer_at L96 oc t s = (t\<lparr>pc := (if is_running_flag s then L97 else L107)\<rparr>, s)"
| "run_timer_at L97 oc t s =
     (case save_session oc (duration t div 60) (kind t) (Some (clock s)) s of
        Inl e \<Rightarrow> (t\<lparr>pc := Crashed\<rparr>, s)
      | Inr s' \<Rightarrow> (t\<lparr>pc := L100\<rparr>, s'))"
| "run_timer_at L100 oc t s =
     (if kind t = Trabajo
      then (t\<lparr>pc := L63, duration := break_seconds s, kind := Descanso\<rparr>,
            s\<lparr>console := console s @ [MsgCompletada (kind t), MsgIniciandoDescanso]\<rparr>)
      else (t\<lparr>pc := Done\<rparr>, s\<lparr>console := console s @ [MsgCompletada (kind t)]\<rparr>))"
| "run_timer_at L107 oc t s = (t\<lparr>pc := L109\<rparr>, s\<lparr>console := console s @ [MsgCancelada (kind t)]\<rparr>)"
| "run_timer_at L109 oc t s = (t\<lparr>pc := L110\<rparr>, s\<lparr>is_running_flag := False\<rparr>)"
| "run_timer_at L110 oc t s = (t\<lparr>pc := Done\<rparr>, s\<lparr>is_paused := False\<rparr>)"
| "run_timer_at Done oc t s = (t, s)"
| "run_timer_at Crashed oc t s = (t, s)"

definition run_timer :: "store_outcome \<Rightarrow> thread \<Rightarrow> pomodoro \<Rightarrow> thread \<times> pomodoro" where
  "run_timer oc t s = run_timer_at (pc t) oc t s"

subsection \<open>The public methods\<close>

text \<open>
  \<^verbatim>\<open>start\<close> creates the thread with the arguments \<^verbatim>\<open>(self.work_seconds, "trabajo")\<close>; the
  thread has not executed anything yet when \<^verbatim>\<open>start\<close> returns.
\<close>

definition start :: "pomodoro \<Rightarrow> bool \<times> pomodoro" where
  "start s =
     (if \<not> is_running_flag s
      then (True, s\<lparr>timer_thread := Some (length (threads s)),
                    threads := threads s @ [\<lparr>pc = L63, duration = work_seconds s, kind = Trabajo\<rparr>]\<rparr>)
      else (False, s))"

definition pause :: "pomodoro \<Rightarrow> bool \<times> pomodoro" where
  "pause s =
     (if is_running_flag s \<and> \<not> is_paused s
      then (True, s\<lparr>is_paused := True, console := console s @ [MsgPausado]\<rparr>)
      else (False, s))"

definition resume :: "pomodoro \<Rightarrow> bool \<times> pomodoro" where
  "resume s =
     (if is_running_flag s \<and> is_paused s
      then (True, s\<lparr>is_paused := False, console := console s @ [MsgReanudado]\<rparr>)
      else (False, s))"

definition cancel :: "pomodoro \<Rightarrow> bool \<times> pomodoro" where
  "cancel s =
     (if is_running_flag s
      then (True, s\<lparr>is_running_flag := False, is_paused := False\<rparr>)
      else (False, s))"

definition is_running :: "pomodoro \<Rightarrow> bool" where
  "is_running s = is_running_flag s"

subsection \<open>Executions\<close>

text \<open>
  An event is a call of a public method by the caller, or one statement of the engine
  thread with the given index together with what the store does if that statement
  writes a session.
\<close>

datatype event = Start | Pause | Resume | Cancel | Engine nat store_outcome

fun step :: "event \<Rightarrow> pomodoro \<Rightarrow> pomodoro" where
  "step Start s = snd (start s)"
| "step Pause s = snd (pause s)"
| "step Resume s = snd (resume s)"
| "step Cancel s = snd (cancel s)"
| "step (Engine i oc) s =
     (if i < length (threads s)
      then (case run_timer oc (threads s ! i) s of
              (t', s') \<Rightarrow> s'\<lparr>threads := (threads s')[i := t']\<rparr>)
      else s)"

fun run_events :: "event list \<Rightarrow> pomodoro \<Rightarrow> pomodoro" where
  "run_events [] s = s"
| "run_events (e # es) s = run_events es (step e s)"

text \<open>The thread \<open>i\<close> executes \<open>n\<close> statements with nothing in between; the store works.\<close>

definition engine_runs :: "nat \<Rightarrow> nat \<Rightarrow> pomodoro \<Rightarrow> pomodoro" where
  "engine_runs n i s = run_events (replicate n (Engine i StoreOk)) s"

subsection \<open>Uninterrupted runs\<close>

text \<open>
  What the loop prints in \<open>n\<close> passes that start with \<open>r\<close> seconds remaining, when the
  timer is not paused: the condition of lines 81 to 85 decides for each pass.
\<close>

fun countdown_msgs :: "session_kind \<Rightarrow> int \<Rightarrow> int \<Rightarrow> nat \<Rightarrow> msg list" where
  "countdown_msgs k d r 0 = []"
| "countdown_msgs k d r (Suc n) =
     (if r mod 5 = 0 \<or> r = d \<or> r \<le> 5 then [MsgRestantes k (r div 60) (r mod 60)] else [])
     @ countdown_msgs k d (r - 1) n"

text \<open>
  The state in which the thread \<open>i\<close>, having entered \<^verbatim>\<open>_run_timer(d, k)\<close> in the state
  \<open>s\<close>, reaches line 100 when neither the caller nor the store interferes.
\<close>

definition phase_end :: "nat \<Rightarrow> int \<Rightarrow> session_kind \<Rightarrow> pomodoro \<Rightarrow> pomodoro" where
  "phase_end i d k s =
     s\<lparr>remaining_time := d - int (nat d),
       session_type := k,
       is_running_flag := True,
       is_paused := False,
       start_time := Some (clock s),
       console := console s @ [MsgIniciando k (task_id s) (d div 60)] @ countdown_msgs k d d (nat d),
       sessions := sessions s @
         [\<lparr>row_task_id = task_id s, row_start_time = clock s, row_end_time = Some (clock s),
           row_duration_minutes = d div 60, row_type = k\<rparr>,
          \<lparr>row_task_id = task_id s, row_start_time = clock s, row_end_time = Some (clock s + nat d),
           row_duration_minutes = d div 60, row_type = k\<rparr>],
       session_id := Some (Suc (Suc (length (sessions s)))),
       clock := clock s + nat d,
       threads := (threads s)[i := \<lparr>pc = L100, duration = d, kind = k\<rparr>]\<rparr>"

text \<open>
  The number of statements the engine executes from line 63 of the work phase to the
  return of the break phase, when nothing interferes: ten statements and three per
  second of countdown for each phase, and line 100 once per phase.
\<close>

definition chain_length :: "int \<Rightarrow> int \<Rightarrow> nat" where
  "chain_length work_min break_min = 22 + 3 * nat (work_min * 60) + 3 * nat (break_min * 60)"

text \<open>The timer after a successful \<^verbatim>\<open>start\<close> and a whole chain run by its thread.\<close>

definition completed_chain :: "int \<Rightarrow> int \<Rightarrow> int \<Rightarrow> pomodoro" where
  "completed_chain tid work_min break_min =
     engine_runs (chain_length work_min break_min) 0 (snd (start (PomodoroTimer tid work_min break_min)))"

subsection \<open>One engine at a time\<close>

text \<open>A thread has ended when \<^verbatim>\<open>_run_timer\<close> returned or an exception left it.\<close>

definition finished :: "thread \<Rightarrow> bool" where
  "finished t = (pc t = Done \<or> pc t = Crashed)"

text \<open>
  The executions in which no \<^verbatim>\<open>start()\<close> creates a thread while a thread created
  earlier is still executing: whenever the caller calls \<^verbatim>\<open>start()\<close>, either the flag is
  set (and the call does nothing) or every thread has ended.
\<close>

fun one_engine_at_a_time :: "event list \<Rightarrow> pomodoro \<Rightarrow> bool" where
  "one_engine_at_a_time [] s = True"
| "one_engine_at_a_time (e # es) s =
     ((e = Start \<longrightarrow> is_running_flag s \<or> list_all finished (threads s)) \<and>
      one_engine_at_a_time es (step e s))"

text \<open>
  The invariant behind C7: all threads but the last have ended, \<^verbatim>\<open>_is_paused\<close> implies
  \<^verbatim>\<open>_is_running\<close>, and a thread in the cancellation branch (lines 107 to 110) has seen
  the flag cleared.
\<close>

definition flags_inv :: "pomodoro \<Rightarrow> bool" where
  "flags_inv s =
     ((\<forall>i. Suc i < length (threads s) \<longrightarrow> finished (threads s ! i)) \<and>
      (is_paused s \<longrightarrow> is_running_flag s) \<and>
      (\<forall>i. Suc i = length (threads s) \<longrightarrow> pc (threads s ! i) \<in> {L107, L109, L110} \<longrightarrow>
         \<not> is_running_flag s))"

subsection \<open>A single run and its cancellation\<close>

text \<open>The number of rows of one kind in the table.\<close>

definition rows_of_kind :: "session_kind \<Rightarrow> pomodoro \<Rightarrow> nat" where
  "rows_of_kind k s = length (filter (\<lambda>r. row_type r = k) (sessions s))"

text \<open>The number of statements the thread \<open>i\<close> is scheduled for in an execution.\<close>

fun engine_steps :: "nat \<Rightarrow> event list \<Rightarrow> nat" where
  "engine_steps i [] = 0"
| "engine_steps i (Engine j oc # es) = (if i = j then Suc (engine_steps i es) else engine_steps i es)"
| "engine_steps i (e # es) = engine_steps i es"

text \<open>
  What holds in every state of an execution with one successful \<^verbatim>\<open>start()\<close> and no other:
  there is one thread; as long as it has not executed line 65 of the work phase the flag
  is clear; it is past the loop only if the countdown has reached zero or the flag was
  cleared, and in the cancellation branch only if the flag is clear; and the table holds
  no row of the current phase before line 74 and at most one until line 99.
\<close>

definition single_run_inv :: "pomodoro \<Rightarrow> bool" where
  "single_run_inv s =
     (length (threads s) = 1 \<and>
      (let t = threads s ! 0 in
        (kind t = Trabajo \<and> pc t \<in> {L63, L64, L65} \<longrightarrow> \<not> is_running_flag s) \<and>
        (pc t \<in> {L96, Done} \<longrightarrow> remaining_time s \<le> 0 \<or> \<not> is_running_flag s) \<and>
        (pc t \<in> {L97, L100} \<longrightarrow> remaining_time s \<le> 0) \<and>
        (pc t \<in> {L107, L109, L110} \<longrightarrow> \<not> is_running_flag s) \<and>
        (kind t = Trabajo \<longrightarrow> rows_of_kind Descanso s = 0) \<and>
        (pc t \<in> {L63, L64, L65, L66, L67, L69, L74} \<longrightarrow> rows_of_kind (kind t) s = 0) \<and>
        (pc t \<in> {L76, L76r, L77, L96, L97, L107, L109, L110, Crashed} \<longrightarrow>
           rows_of_kind (kind t) s \<le> 1)))"

text \<open>
  What holds from a successful \<^verbatim>\<open>cancel()\<close> during a phase of kind \<open>k\<close> on, when the table
  held the rows \<open>base\<close> at the call: the flag stays clear, the thread stays in that phase
  and never reaches lines 97 to 105, and the table grows by at most the record of line 74.
\<close>

definition cancelled_inv :: "session_kind \<Rightarrow> session_row list \<Rightarrow> pomodoro \<Rightarrow> bool" where
  "cancelled_inv k base s =
     (length (threads s) = 1 \<and> \<not> is_running_flag s \<and>
      (let t = threads s ! 0 in
        kind t = k \<and>
        pc t \<in> {L66, L67, L69, L74, L76, L76r, L77, L96, L107, L109, L110, Done, Crashed} \<and>
        (pc t \<in> {L66, L67, L69, L74} \<longrightarrow> sessions s = base \<and> rows_of_kind k s = 0) \<and>
        rows_of_kind k s \<le> 1 \<and>
        take (length base) (sessions s) = base \<and>
        length (sessions s) \<le> Suc (length base)))"

text \<open>
  An upper bound on the statements a thread at a given line still executes once the flag
  is clear (zero for the lines such a thread cannot be at).
\<close>

fun steps_left :: "pc \<Rightarrow> nat" where
  "steps_left L66 = 11"
| "steps_left L67 = 10"
| "steps_left L69 = 9"
| "steps_left L74 = 8"
| "steps_left L77 = 7"
| "steps_left L76 = 6"
| "steps_left L76r = 5"
| "steps_left L96 = 4"
| "steps_left L107 = 3"
| "steps_left L109 = 2"
| "steps_left L110 = 1"
| "steps_left _ = 0"

subsection \<open>A cancel as the break begins\<close>

text \<open>
  The timer after a successful \<^verbatim>\<open>start\<close> whose thread has completed the work phase, written
  its completion record, made the call of line 105 and executed line 63 of the break's
  \<^verbatim>\<open>_run_timer\<close>: the thread is at line 64, with nothing but the thread having run.
\<close>

definition at_break_entry :: "int \<Rightarrow> int \<Rightarrow> int \<Rightarrow> pomodoro" where
  "at_break_entry tid work_min break_min =
     engine_runs (12 + 3 * nat (work_min * 60)) 0 (snd (start (PomodoroTimer tid work_min break_min)))"

text \<open>
  A \<^verbatim>\<open>cancel()\<close> in that state, and then the thread alone: lines 64 to 74, one pass of the
  loop (three statements) for each second of the break, and lines 76, 96 and 97 to 99.
\<close>

definition cancelled_at_break_entry :: "int \<Rightarrow> int \<Rightarrow> int \<Rightarrow> pomodoro" where
  "cancelled_at_break_entry tid work_min break_min =
     engine_runs (9 + 3 * nat (break_min * 60)) 0
       (snd (cancel (at_break_entry tid work_min break_min)))"

section \<open>Basic facts\<close>

lemma run_events_append: "run_events (xs @ ys) s = run_events ys (run_events xs s)"
  by (induction xs arbitrary: s) simp_all

lemma engine_runs_0: "engine_runs 0 i s = s"
  by (simp add: engine_runs_def)

lemma engine_runs_Suc: "engine_runs (Suc n) i s = engine_runs n i (step (Engine i StoreOk) s)"
  by (simp add: engine_runs_def)

lemma engine_runs_add: "engine_runs (m + n) i s = engine_runs n i (engine_runs m i s)"
  by (simp add: engine_runs_def replicate_add run_events_append)

lemmas model_defs = PomodoroTimer_def start_def cancel_def pause_def resume_def is_running_def
  run_timer_def save_session_def loop_body_def

lemma list_update_same: "i < length xs \<Longrightarrow> xs ! i = t \<Longrightarrow> xs[i := t] = xs"
  by (metis list_update_id)


lemma one_tick:
  assumes "i < length (threads s)" and "threads s ! i = \<lparr>pc = L76, duration = d, kind = k\<rparr>"
    and "is_running_flag s" and "\<not> is_paused s" and "0 < remaining_time s"
  shows "engine_runs 3 i s =
     s\<lparr>console := console s @ countdown_msgs k d (remaining_time s) 1,
       clock := Suc (clock s), remaining_time := remaining_time s - 1\<rparr>"
  using assms
  by (simp add: numeral_3_eq_3 engine_runs_Suc engine_runs_0 run_timer_def list_update_same
      loop_body_def Let_def)



lemma countdown_exact:
  assumes "i < length (threads s)" and "threads s ! i = \<lparr>pc = L76, duration = d, kind = k\<rparr>"
    and "is_running_flag s" and "\<not> is_paused s" and "remaining_time s = int n"
  shows "engine_runs (3 * n) i s =
     s\<lparr>console := console s @ countdown_msgs k d (int n) n,
       clock := clock s + n, remaining_time := 0\<rparr>"
  using assms
proof (induction n arbitrary: s)
  case 0
  then show ?case by (simp add: engine_runs_0)
next
  case (Suc n)
  let ?s1 = "s\<lparr>console := console s @ countdown_msgs k d (remaining_time s) 1,
       clock := Suc (clock s), remaining_time := remaining_time s - 1\<rparr>"
  have s1: "engine_runs 3 i s = ?s1"
    using Suc.prems by (intro one_tick) simp_all
  have "engine_runs (3 * n) i ?s1 =
      ?s1\<lparr>console := console ?s1 @ countdown_msgs k d (int n) n,
       clock := clock ?s1 + n, remaining_time := 0\<rparr>"
    by (rule Suc.IH) (use Suc.prems in simp_all)
  moreover have "engine_runs (3 * Suc n) i s = engine_runs (3 * n) i (engine_runs 3 i s)"
    using engine_runs_add [of 3 "3 * n" i s] by simp
  ultimately show ?case using s1 Suc.prems(5) by simp
qed

lemma countdown:
  assumes "i < length (threads s)" and "threads s ! i = \<lparr>pc = L76, duration = d, kind = k\<rparr>"
    and "is_running_flag s" and "\<not> is_paused s" and "remaining_time s = r"
  shows "engine_runs (3 * nat r) i s =
     s\<lparr>console := console s @ countdown_msgs k d r (nat r),
       clock := clock s + nat r, remaining_time := r - int (nat r)\<rparr>"
proof (cases "0 \<le> r")
  case True
  then have "remaining_time s = int (nat r)"
    using assms(5) by simp
  from countdown_exact [OF assms(1-4) this] True show ?thesis
    by simp
next
  case False
  then show ?thesis
    using assms(5) by (simp add: engine_runs_0)
qed

lemma phase_init:
  assumes "i < length (threads s)" and "threads s ! i = \<lparr>pc = L63, duration = d, kind = k\<rparr>"
  shows "engine_runs 7 i s =
     s\<lparr>remaining_time := d,
       session_type := k,
       is_running_flag := True,
       is_paused := False,
       start_time := Some (clock s),
       console := console s @ [MsgIniciando k (task_id s) (d div 60)],
       sessions := sessions s @
         [\<lparr>row_task_id = task_id s, row_start_time = clock s, row_end_time = Some (clock s),
           row_duration_minutes = d div 60, row_type = k\<rparr>],
       session_id := Some (Suc (length (sessions s))),
       threads := (threads s)[i := \<lparr>pc = L76, duration = d, kind = k\<rparr>]\<rparr>"
  using assms
  by (simp add: numeral_eq_Suc engine_runs_Suc engine_runs_0 run_timer_def save_session_def)

lemma phase_exit:
  assumes "i < length (threads s)" and "threads s ! i = \<lparr>pc = L76, duration = d, kind = k\<rparr>"
    and "is_running_flag s" and "remaining_time s \<le> 0" and "start_time s = Some st"
  shows "engine_runs 3 i s =
     s\<lparr>sessions := sessions s @
         [\<lparr>row_task_id = task_id s, row_start_time = st, row_end_time = Some (clock s),
           row_duration_minutes = d div 60, row_type = k\<rparr>],
       session_id := Some (Suc (length (sessions s))),
       threads := (threads s)[i := \<lparr>pc = L100, duration = d, kind = k\<rparr>]\<rparr>"
  using assms
  by (simp add: numeral_eq_Suc engine_runs_Suc engine_runs_0 run_timer_def save_session_def)

lemma phase:
  assumes "i < length (threads s)" and "threads s ! i = \<lparr>pc = L63, duration = d, kind = k\<rparr>"
  shows "engine_runs (10 + 3 * nat d) i s = phase_end i d k s"
proof -
  define s1 where "s1 = s\<lparr>remaining_time := d,
       session_type := k,
       is_running_flag := True,
       is_paused := False,
       start_time := Some (clock s),
       console := console s @ [MsgIniciando k (task_id s) (d div 60)],
       sessions := sessions s @
         [\<lparr>row_task_id = task_id s, row_start_time = clock s, row_end_time = Some (clock s),
           row_duration_minutes = d div 60, row_type = k\<rparr>],
       session_id := Some (Suc (length (sessions s))),
       threads := (threads s)[i := \<lparr>pc = L76, duration = d, kind = k\<rparr>]\<rparr>"
  define s2 where "s2 = s1\<lparr>console := console s1 @ countdown_msgs k d d (nat d),
       clock := clock s1 + nat d, remaining_time := d - int (nat d)\<rparr>"
  have e1: "engine_runs 7 i s = s1"
    unfolding s1_def using assms by (rule phase_init)
  have e2: "engine_runs (3 * nat d) i s1 = s2"
    unfolding s2_def by (rule countdown) (use assms in \<open>simp_all add: s1_def\<close>)
  have "engine_runs 3 i s2 = s2\<lparr>sessions := sessions s2 @
         [\<lparr>row_task_id = task_id s2, row_start_time = clock s, row_end_time = Some (clock s2),
           row_duration_minutes = d div 60, row_type = k\<rparr>],
       session_id := Some (Suc (length (sessions s2))),
       threads := (threads s2)[i := \<lparr>pc = L100, duration = d, kind = k\<rparr>]\<rparr>"
    by (rule phase_exit) (use assms in \<open>simp_all add: s2_def s1_def\<close>)
  then have e3: "engine_runs 3 i s2 = phase_end i d k s"
    by (simp add: s2_def s1_def phase_end_def)
  have "engine_runs (10 + 3 * nat d) i s = engine_runs 3 i (engine_runs (3 * nat d) i (engine_runs 7 i s))"
    using engine_runs_add [of 7 "3 * nat d + 3" i s] engine_runs_add [of "3 * nat d" 3 i "engine_runs 7 i s"]
    by (simp add: add.commute)
  then show ?thesis
    by (simp only: e1 e2 e3)
qed

lemma chain_complete:
  "completed_chain tid wm bm =
     \<lparr>task_id = tid,
      work_seconds = wm * 60,
      break_seconds = bm * 60,
      timer_thread = Some 0,
      is_running_flag = True,
      is_paused = False,
      remaining_time = bm * 60 - int (nat (bm * 60)),
      session_type = Descanso,
      start_time = Some (nat (wm * 60)),
      session_id = Some 4,
      threads = [\<lparr>pc = Done, duration = bm * 60, kind = Descanso\<rparr>],
      sessions =
        [\<lparr>row_task_id = tid, row_start_time = 0, row_end_time = Some 0,
          row_duration_minutes = wm, row_type = Trabajo\<rparr>,
         \<lparr>row_task_id = tid, row_start_time = 0, row_end_time = Some (nat (wm * 60)),
          row_duration_minutes = wm, row_type = Trabajo\<rparr>,
         \<lparr>row_task_id = tid, row_start_time = nat (wm * 60), row_end_time = Some (nat (wm * 60)),
          row_duration_minutes = bm, row_type = Descanso\<rparr>,
         \<lparr>row_task_id = tid, row_start_time = nat (wm * 60),
          row_end_time = Some (nat (wm * 60) + nat (bm * 60)),
          row_duration_minutes = bm, row_type = Descanso\<rparr>],
      console =
        [MsgIniciando Trabajo tid wm] @ countdown_msgs Trabajo (wm * 60) (wm * 60) (nat (wm * 60)) @
        [MsgCompletada Trabajo, MsgIniciandoDescanso, MsgIniciando Descanso tid bm] @
        countdown_msgs Descanso (bm * 60) (bm * 60) (nat (bm * 60)) @ [MsgCompletada Descanso],
      clock = nat (wm * 60) + nat (bm * 60)\<rparr>"
proof -
  define s0 where "s0 = snd (start (PomodoroTimer tid wm bm))"
  define s1 where "s1 = phase_end 0 (wm * 60) Trabajo s0"
  define s2 where "s2 = step (Engine 0 StoreOk) s1"
  define s3 where "s3 = phase_end 0 (bm * 60) Descanso s2"
  define n1 where "n1 = 10 + 3 * nat (wm * 60)"
  define n2 where "n2 = 10 + 3 * nat (bm * 60)"
  have t0: "threads s0 = [\<lparr>pc = L63, duration = wm * 60, kind = Trabajo\<rparr>]"
    by (simp add: s0_def start_def PomodoroTimer_def)
  have e1: "engine_runs n1 0 s0 = s1"
    unfolding s1_def n1_def by (rule phase) (simp_all add: t0)
  have t2: "threads s2 = [\<lparr>pc = L63, duration = bm * 60, kind = Descanso\<rparr>]"
    by (simp add: s2_def s1_def phase_end_def t0 run_timer_def s0_def start_def PomodoroTimer_def)
  have e3: "engine_runs n2 0 s2 = s3"
    unfolding s3_def n2_def by (rule phase) (simp_all add: t2)
  have "chain_length wm bm = n1 + Suc (n2 + Suc 0)"
    by (simp add: chain_length_def n1_def n2_def)
  then have "completed_chain tid wm bm = engine_runs (n1 + Suc (n2 + Suc 0)) 0 s0"
    by (simp add: completed_chain_def s0_def)
  also have "\<dots> = engine_runs (Suc (n2 + Suc 0)) 0 s1"
    by (simp only: engine_runs_add e1)
  also have "\<dots> = engine_runs (n2 + Suc 0) 0 s2"
    by (simp only: engine_runs_Suc s2_def)
  also have "\<dots> = engine_runs (Suc 0) 0 s3"
    by (simp only: engine_runs_add e3)
  also have "\<dots> = step (Engine 0 StoreOk) s3"
    by (simp only: engine_runs_Suc engine_runs_0)
  also have "\<dots> = \<lparr>task_id = tid,
      work_seconds = wm * 60,
      break_seconds = bm * 60,
      timer_thread = Some 0,
      is_running_flag = True,
      is_paused = False,
      remaining_time = bm * 60 - int (nat (bm * 60)),
      session_type = Descanso,
      start_time = Some (nat (wm * 60)),
      session_id = Some 4,
      threads = [\<lparr>pc = Done, duration = bm * 60, kind = Descanso\<rparr>],
      sessions =
        [\<lparr>row_task_id = tid, row_start_time = 0, row_end_time = Some 0,
          row_duration_minutes = wm, row_type = Trabajo\<rparr>,
         \<lparr>row_task_id = tid, row_start_time = 0, row_end_time = Some (nat (wm * 60)),
          row_duration_minutes = wm, row_type = Trabajo\<rparr>,
         \<lparr>row_task_id = tid, row_start_time = nat (wm * 60), row_end_time = Some (nat (wm * 60)),
          row_duration_minutes = bm, row_type = Descanso\<rparr>,
         \<lparr>row_task_id = tid, row_start_time = nat (wm * 60),
          row_end_time = Some (nat (wm * 60) + nat (bm * 60)),
          row_duration_minutes = bm, row_type = Descanso\<rparr>],
      console =
        [MsgIniciando Trabajo tid wm] @ countdown_msgs Trabajo (wm * 60) (wm * 60) (nat (wm * 60)) @
        [MsgCompletada Trabajo, MsgIniciandoDescanso, MsgIniciando Descanso tid bm] @
        countdown_msgs Descanso (bm * 60) (bm * 60) (nat (bm * 60)) @ [MsgCompletada Descanso],
      clock = nat (wm * 60) + nat (bm * 60)\<rparr>"
    by (simp add: s3_def s2_def s1_def s0_def phase_end_def run_timer_def start_def PomodoroTimer_def)
  finally show ?thesis .
qed

lemma finished_stutter:
  assumes "i < length (threads s) \<longrightarrow> pc (threads s ! i) = Done \<or> pc (threads s ! i) = Crashed"
  shows "step (Engine i oc) s = s"
  using assms by (auto simp add: run_timer_def list_update_same)

lemma finished_stutters:
  assumes "i < length (threads s) \<longrightarrow> pc (threads s ! i) = Done \<or> pc (threads s ! i) = Crashed"
  shows "run_events (map (Engine i) ocs) s = s"
  using assms by (induction ocs) (simp_all add: finished_stutter del: step.simps)

lemma at_break_entry_state:
  "at_break_entry tid wm bm =
     \<lparr>task_id = tid,
      work_seconds = wm * 60,
      break_seconds = bm * 60,
      timer_thread = Some 0,
      is_running_flag = True,
      is_paused = False,
      remaining_time = bm * 60,
      session_type = Trabajo,
      start_time = Some 0,
      session_id = Some 2,
      threads = [\<lparr>pc = L64, duration = bm * 60, kind = Descanso\<rparr>],
      sessions =
        [\<lparr>row_task_id = tid, row_start_time = 0, row_end_time = Some 0,
          row_duration_minutes = wm, row_type = Trabajo\<rparr>,
         \<lparr>row_task_id = tid, row_start_time = 0, row_end_time = Some (nat (wm * 60)),
          row_duration_minutes = wm, row_type = Trabajo\<rparr>],
      console =
        [MsgIniciando Trabajo tid wm] @ countdown_msgs Trabajo (wm * 60) (wm * 60) (nat (wm * 60)) @
        [MsgCompletada Trabajo, MsgIniciandoDescanso],
      clock = nat (wm * 60)\<rparr>"
proof -
  define s0 where "s0 = snd (start (PomodoroTimer tid wm bm))"
  have t0: "threads s0 = [\<lparr>pc = L63, duration = wm * 60, kind = Trabajo\<rparr>]"
    by (simp add: s0_def start_def PomodoroTimer_def)
  have e1: "engine_runs (10 + 3 * nat (wm * 60)) 0 s0 = phase_end 0 (wm * 60) Trabajo s0"
    by (rule phase) (simp_all add: t0)
  have "at_break_entry tid wm bm = engine_runs 2 0 (engine_runs (10 + 3 * nat (wm * 60)) 0 s0)"
    unfolding at_break_entry_def s0_def [symmetric]
    using engine_runs_add [of "10 + 3 * nat (wm * 60)" 2 0 s0] by (simp add: add.commute)
  also have "\<dots> = engine_runs 2 0 (phase_end 0 (wm * 60) Trabajo s0)"
    by (simp only: e1)
  finally show ?thesis
    by (simp add: numeral_2_eq_2 engine_runs_Suc engine_runs_0 phase_end_def run_timer_def
        s0_def start_def PomodoroTimer_def)
qed

lemma cancelled_at_break_entry_state:
  "cancelled_at_break_entry tid wm bm =
     \<lparr>task_id = tid,
      work_seconds = wm * 60,
      break_seconds = bm * 60,
      timer_thread = Some 0,
      is_running_flag = True,
      is_paused = False,
      remaining_time = bm * 60 - int (nat (bm * 60)),
      session_type = Descanso,
      start_time = Some (nat (wm * 60)),
      session_id = Some 4,
      threads = [\<lparr>pc = L100, duration = bm * 60, kind = Descanso\<rparr>],
      sessions =
        [\<lparr>row_task_id = tid, row_start_time = 0, row_end_time = Some 0,
          row_duration_minutes = wm, row_type = Trabajo\<rparr>,
         \<lparr>row_task_id = tid, row_start_time = 0, row_end_time = Some (nat (wm * 60)),
          row_duration_minutes = wm, row_type = Trabajo\<rparr>,
         \<lparr>row_task_id = tid, row_start_time = nat (wm * 60), row_end_time = Some (nat (wm * 60)),
          row_duration_minutes = bm, row_type = Descanso\<rparr>,
         \<lparr>row_task_id = tid, row_start_time = nat (wm * 60),
          row_end_time = Some (nat (wm * 60) + nat (bm * 60)),
          row_duration_minutes = bm, row_type = Descanso\<rparr>],
      console =
        [MsgIniciando Trabajo tid wm] @ countdown_msgs Trabajo (wm * 60) (wm * 60) (nat (wm * 60)) @
        [MsgCompletada Trabajo, MsgIniciandoDescanso, MsgIniciando Descanso tid bm] @
        countdown_msgs Descanso (bm * 60) (bm * 60) (nat (bm * 60)),
      clock = nat (wm * 60) + nat (bm * 60)\<rparr>"
  (is "_ = ?R")
proof -
  define c where "c = snd (cancel (at_break_entry tid wm bm))"
  define s1 where "s1 = engine_runs 6 0 c"
  define s2 where "s2 = s1\<lparr>console := console s1 @ countdown_msgs Descanso (bm * 60) (bm * 60) (nat (bm * 60)),
       clock := clock s1 + nat (bm * 60), remaining_time := bm * 60 - int (nat (bm * 60))\<rparr>"
  have s1: "s1 =
     \<lparr>task_id = tid,
      work_seconds = wm * 60,
      break_seconds = bm * 60,
      timer_thread = Some 0,
      is_running_flag = True,
      is_paused = False,
      remaining_time = bm * 60,
      session_type = Descanso,
      start_time = Some (nat (wm * 60)),
      session_id = Some 3,
      threads = [\<lparr>pc = L76, duration = bm * 60, kind = Descanso\<rparr>],
      sessions =
        [\<lparr>row_task_id = tid, row_start_time = 0, row_end_time = Some 0,
          row_duration_minutes = wm, row_type = Trabajo\<rparr>,
         \<lparr>row_task_id = tid, row_start_time = 0, row_end_time = Some (nat (wm * 60)),
          row_duration_minutes = wm, row_type = Trabajo\<rparr>,
         \<lparr>row_task_id = tid, row_start_time = nat (wm * 60), row_end_time = Some (nat (wm * 60)),
          row_duration_minutes = bm, row_type = Descanso\<rparr>],
      console =
        [MsgIniciando Trabajo tid wm] @ countdown_msgs Trabajo (wm * 60) (wm * 60) (nat (wm * 60)) @
        [MsgCompletada Trabajo, MsgIniciandoDescanso, MsgIniciando Descanso tid bm],
      clock = nat (wm * 60)\<rparr>"
    unfolding s1_def c_def
    by (simp add: at_break_entry_state cancel_def numeral_eq_Suc engine_runs_Suc engine_runs_0
        run_timer_def save_session_def)
  have e2: "engine_runs (3 * nat (bm * 60)) 0 s1 = s2"
    unfolding s2_def by (rule countdown) (simp_all add: s1)
  have "engine_runs 3 0 s2 = s2\<lparr>sessions := sessions s2 @
         [\<lparr>row_task_id = task_id s2, row_start_time = nat (wm * 60), row_end_time = Some (clock s2),
           row_duration_minutes = bm * 60 div 60, row_type = Descanso\<rparr>],
       session_id := Some (Suc (length (sessions s2))),
       threads := (threads s2)[0 := \<lparr>pc = L100, duration = bm * 60, kind = Descanso\<rparr>]\<rparr>"
    by (rule phase_exit) (simp_all add: s2_def s1)
  then have e3: "engine_runs 3 0 s2 = ?R"
    by (simp add: s2_def s1)
  have "cancelled_at_break_entry tid wm bm = engine_runs (6 + (3 * nat (bm * 60) + 3)) 0 c"
    by (simp add: cancelled_at_break_entry_def c_def add.commute)
  also have "\<dots> = engine_runs (3 * nat (bm * 60) + 3) 0 s1"
    by (simp only: engine_runs_add s1_def)
  also have "\<dots> = engine_runs 3 0 s2"
    by (simp only: engine_runs_add e2)
  finally show ?thesis
    by (simp only: e3)
qed

section \<open>The claims\<close>

subsection \<open>C1: the record written at the start of a phase\<close>

text \<open>
  C1 says that the record written at the start of a phase has \<^verbatim>\<open>end_time\<close> absent, and
  that \<^verbatim>\<open>start()\<close> followed by \<^verbatim>\<open>cancel()\<close> within the first second leaves exactly one
  record, of kind work, with \<^verbatim>\<open>end_time\<close> absent.  The comment of line 73 says the same
  ("end_time nulo"), but lines 41 and 42 replace an absent \<^verbatim>\<open>end_time\<close> by the current
  time before the \<^verbatim>\<open>INSERT\<close>.  In the scenario (the thread executes lines 63 to 74, the
  caller cancels before the first pass of the loop, the thread runs to its end) the
  table holds one record of kind work whose \<^verbatim>\<open>end_time\<close> is present and equal to its
  \<^verbatim>\<open>start_time\<close>.
\<close>

theorem C1_start_record_end_time_present:
  "sessions (engine_runs 6 0 (snd (cancel (engine_runs 7 0 (snd (start (PomodoroTimer tid wm bm))))))) =
     [\<lparr>row_task_id = tid, row_start_time = 0, row_end_time = Some 0,
       row_duration_minutes = wm, row_type = Trabajo\<rparr>]"
  by (simp add: model_defs numeral_eq_Suc engine_runs_Suc engine_runs_0)

subsection \<open>C2: the running flag after the chain\<close>

text \<open>
  C2 says that \<^verbatim>\<open>is_running()\<close> is false after the break phase has finished naturally.
  Only the cancellation branch (lines 109 and 110) resets \<^verbatim>\<open>_is_running\<close>; the branch
  of normal completion does not.  After a whole chain that nothing interrupted the
  thread has returned and \<^verbatim>\<open>is_running()\<close> is still true, for all durations.
\<close>

theorem C2_running_after_completed_chain:
  "is_running (completed_chain tid wm bm) \<and>
   threads (completed_chain tid wm bm) = [\<lparr>pc = Done, duration = bm * 60, kind = Descanso\<rparr>]"
  by (simp add: chain_complete is_running_def)

subsection \<open>C3: the four records of a completed chain\<close>

text \<open>
  C3: a work phase of \<open>D = work_seconds\<close> seconds that runs to natural completion, with a
  break of \<open>B = break_seconds\<close> seconds, writes exactly four records in this order: two
  of kind work with \<^verbatim>\<open>duration_minutes\<close> \<open>D div 60\<close> (the first before the countdown, the
  second when it ends), then two of kind break with \<^verbatim>\<open>duration_minutes\<close> \<open>B div 60\<close>; the
  thread then returns, and whatever it is asked to execute afterwards adds no record.
\<close>

theorem C3_completed_chain_four_records:
  "sessions (completed_chain tid wm bm) =
     [\<lparr>row_task_id = tid, row_start_time = 0, row_end_time = Some 0,
       row_duration_minutes = work_seconds (PomodoroTimer tid wm bm) div 60, row_type = Trabajo\<rparr>,
      \<lparr>row_task_id = tid, row_start_time = 0, row_end_time = Some (nat (wm * 60)),
       row_duration_minutes = work_seconds (PomodoroTimer tid wm bm) div 60, row_type = Trabajo\<rparr>,
      \<lparr>row_task_id = tid, row_start_time = nat (wm * 60), row_end_time = Some (nat (wm * 60)),
       row_duration_minutes = break_seconds (PomodoroTimer tid wm bm) div 60, row_type = Descanso\<rparr>,
      \<lparr>row_task_id = tid, row_start_time = nat (wm * 60),
       row_end_time = Some (nat (wm * 60) + nat (bm * 60)),
       row_duration_minutes = break_seconds (PomodoroTimer tid wm bm) div 60, row_type = Descanso\<rparr>] \<and>
   pc (threads (completed_chain tid wm bm) ! 0) = Done \<and>
   run_events (map (Engine 0) ocs) (completed_chain tid wm bm) = completed_chain tid wm bm"
proof -
  have "pc (threads (completed_chain tid wm bm) ! 0) = Done"
    by (simp add: chain_complete)
  then have "run_events (map (Engine 0) ocs) (completed_chain tid wm bm) = completed_chain tid wm bm"
    by (intro finished_stutters) simp
  then show ?thesis
    by (simp add: chain_complete PomodoroTimer_def)
qed

subsection \<open>C4: cancellation during a phase\<close>

lemma single_run_inv_paused [simp]: "single_run_inv (s\<lparr>is_paused := b\<rparr>) = single_run_inv s"
  by (simp add: single_run_inv_def rows_of_kind_def)

lemma single_run_inv_console [simp]: "single_run_inv (s\<lparr>console := c\<rparr>) = single_run_inv s"
  by (simp add: single_run_inv_def rows_of_kind_def)

lemma single_run_inv_not_running:
  "single_run_inv s \<Longrightarrow> single_run_inv (s\<lparr>is_running_flag := False\<rparr>)"
  by (simp add: single_run_inv_def rows_of_kind_def Let_def)

lemma single_run_inv_pause: "single_run_inv s \<Longrightarrow> single_run_inv (step Pause s)"
  by (simp add: pause_def)

lemma single_run_inv_resume: "single_run_inv s \<Longrightarrow> single_run_inv (step Resume s)"
  by (simp add: resume_def)

lemma single_run_inv_cancel: "single_run_inv s \<Longrightarrow> single_run_inv (step Cancel s)"
  by (simp add: cancel_def single_run_inv_not_running)

lemma cancelled_inv_paused [simp]: "cancelled_inv k base (s\<lparr>is_paused := b\<rparr>) = cancelled_inv k base s"
  by (simp add: cancelled_inv_def rows_of_kind_def)

lemma cancelled_inv_console [simp]: "cancelled_inv k base (s\<lparr>console := c\<rparr>) = cancelled_inv k base s"
  by (simp add: cancelled_inv_def rows_of_kind_def)

lemma cancelled_inv_not_running: "cancelled_inv k base s \<Longrightarrow> \<not> is_running_flag s"
  by (simp add: cancelled_inv_def)

lemma cancelled_inv_caller:
  assumes "cancelled_inv k base s" and "e \<in> {Pause, Resume, Cancel}"
  shows "step e s = s"
  using assms cancelled_inv_not_running [OF assms(1)]
  by (auto simp add: pause_def resume_def cancel_def)

lemmas step_defs = run_timer_def save_session_def loop_body_def Let_def

lemma cancelled_inv_engine:
  assumes "cancelled_inv k base s"
  shows "cancelled_inv k base (step (Engine 0 oc) s) \<and>
         steps_left (pc (threads (step (Engine 0 oc) s) ! 0))
           \<le> steps_left (pc (threads s ! 0)) - 1"
proof -
  from assms obtain t where t: "threads s = [t]"
    by (auto simp add: cancelled_inv_def length_Suc_conv)
  from assms t have pc: "pc t \<in> {L66, L67, L69, L74, L76, L76r, L77, L96, L107, L109, L110, Done, Crashed}"
    by (simp add: cancelled_inv_def)
  from assms t have f: "\<not> is_running_flag s" "kind t = k" "rows_of_kind k s \<le> 1"
    "take (length base) (sessions s) = base" "length (sessions s) \<le> Suc (length base)"
    "pc t \<in> {L66, L67, L69, L74} \<longrightarrow> sessions s = base \<and> rows_of_kind k s = 0"
    by (simp_all add: cancelled_inv_def)
  consider "pc t = L66" | "pc t = L67" | "pc t = L69" | "pc t = L74" | "pc t = L76" | "pc t = L76r"
    | "pc t = L77" | "pc t = L96" | "pc t = L107" | "pc t = L109" | "pc t = L110" | "pc t = Done"
    | "pc t = Crashed"
    using pc by blast
  then show ?thesis
  proof cases
    case 4
    with f t show ?thesis
      by (cases oc; cases "start_time s")
        (auto simp add: cancelled_inv_def step_defs rows_of_kind_def)
  qed (use f t in \<open>auto simp add: cancelled_inv_def step_defs rows_of_kind_def\<close>)
qed

lemma cancel_establishes:
  assumes "single_run_inv s" and "is_running_flag s" and "0 < remaining_time s"
    and "kind (threads s ! 0) = Trabajo \<or> pc (threads s ! 0) \<notin> {L63, L64, L65}"
  shows "cancelled_inv (kind (threads s ! 0)) (sessions s) (step Cancel s)"
proof -
  from assms obtain t where t: "threads s = [t]"
    by (auto simp add: single_run_inv_def length_Suc_conv)
  show ?thesis
    using assms t
    by (cases "pc t") (simp_all add: single_run_inv_def cancelled_inv_def cancel_def rows_of_kind_def)
qed

lemma single_run_inv_init: "single_run_inv (snd (start (PomodoroTimer tid wm bm)))"
  by (simp add: single_run_inv_def start_def PomodoroTimer_def rows_of_kind_def)

lemma single_run_inv_engine:
  assumes "single_run_inv s"
  shows "single_run_inv (step (Engine 0 oc) s)"
proof -
  from assms obtain t where t: "threads s = [t]"
    by (auto simp add: single_run_inv_def length_Suc_conv)
  show ?thesis
    using assms t
    apply (cases "pc t"; cases "kind t")
    apply (simp_all add: single_run_inv_def step_defs rows_of_kind_def
        split: store_outcome.splits option.splits)
    apply blast+
    done
qed

lemma single_run_inv_step:
  assumes "single_run_inv s" and "e \<noteq> Start"
  shows "single_run_inv (step e s)"
proof (cases e)
  case Start
  with assms show ?thesis by simp
next
  case Pause
  with assms single_run_inv_pause show ?thesis by simp
next
  case Resume
  with assms single_run_inv_resume show ?thesis by simp
next
  case Cancel
  with assms single_run_inv_cancel show ?thesis by simp
next
  case (Engine i oc)
  show ?thesis
  proof (cases "i = 0")
    case False
    with assms Engine show ?thesis by (simp add: single_run_inv_def)
  next
    case True
    with assms Engine single_run_inv_engine show ?thesis by simp
  qed
qed

lemma single_run_inv_run:
  assumes "single_run_inv s" and "Start \<notin> set evs"
  shows "single_run_inv (run_events evs s)"
  using assms
proof (induction evs arbitrary: s)
  case Nil
  then show ?case by simp
next
  case (Cons e evs)
  from Cons.prems have "single_run_inv (step e s)"
    by (intro single_run_inv_step) auto
  with Cons.IH Cons.prems show ?case by simp
qed

lemma cancelled_inv_step:
  assumes "cancelled_inv k base s" and "e \<noteq> Start"
  shows "cancelled_inv k base (step e s) \<and>
         steps_left (pc (threads (step e s) ! 0))
           \<le> steps_left (pc (threads s ! 0)) - engine_steps 0 [e]"
proof (cases e)
  case Start
  with assms show ?thesis by simp
next
  case Pause
  with assms cancelled_inv_caller [of k base s e] show ?thesis by simp
next
  case Resume
  with assms cancelled_inv_caller [of k base s e] show ?thesis by simp
next
  case Cancel
  with assms cancelled_inv_caller [of k base s e] show ?thesis by simp
next
  case (Engine i oc)
  show ?thesis
  proof (cases "i = 0")
    case False
    with assms Engine show ?thesis by (simp add: cancelled_inv_def)
  next
    case True
    with Engine cancelled_inv_engine [OF assms(1), of oc] show ?thesis
      by (simp del: step.simps)
  qed
qed

lemma engine_steps_Cons: "engine_steps i (e # es) = engine_steps i [e] + engine_steps i es"
  by (cases e) simp_all

lemma cancelled_inv_run:
  assumes "cancelled_inv k base s" and "Start \<notin> set evs"
  shows "cancelled_inv k base (run_events evs s) \<and>
         steps_left (pc (threads (run_events evs s) ! 0))
           \<le> steps_left (pc (threads s ! 0)) - engine_steps 0 evs"
  using assms
proof (induction evs arbitrary: s)
  case Nil
  then show ?case by simp
next
  case (Cons e evs)
  from Cons.prems have e: "e \<noteq> Start" and evs: "Start \<notin> set evs"
    by auto
  from cancelled_inv_step [OF Cons.prems(1) e]
  have 1: "cancelled_inv k base (step e s)"
    and 2: "steps_left (pc (threads (step e s) ! 0))
           \<le> steps_left (pc (threads s ! 0)) - engine_steps 0 [e]"
    by blast+
  from Cons.IH [OF 1 evs]
  have 3: "cancelled_inv k base (run_events evs (step e s))"
    and 4: "steps_left (pc (threads (run_events evs (step e s)) ! 0))
           \<le> steps_left (pc (threads (step e s) ! 0)) - engine_steps 0 evs"
    by blast+
  from 2 4 have "steps_left (pc (threads (run_events evs (step e s)) ! 0))
      \<le> steps_left (pc (threads s ! 0)) - (engine_steps 0 [e] + engine_steps 0 evs)"
    by linarith
  with 3 show ?case
    by (simp add: engine_steps_Cons [of 0 e evs] del: step.simps engine_steps.simps)
qed

lemma cancelled_inv_pc:
  assumes "cancelled_inv k base s"
  shows "pc (threads s ! 0) \<in> {L66, L67, L69, L74, L76, L76r, L77, L96, L107, L109, L110, Done, Crashed}"
  using assms by (simp add: cancelled_inv_def Let_def)

lemma cancelled_inv_facts:
  assumes "cancelled_inv k base s"
  shows "\<not> is_running_flag s \<and> kind (threads s ! 0) = k \<and> rows_of_kind k s \<le> 1 \<and>
    take (length base) (sessions s) = base \<and> length (sessions s) \<le> Suc (length base)"
  using assms by (simp add: cancelled_inv_def Let_def)

lemma steps_left_bound:
  assumes "p \<in> {L66, L67, L69, L74, L76, L76r, L77, L96, L107, L109, L110, Done, Crashed}"
  shows "steps_left p \<le> 11 \<and> p \<noteq> L97 \<and> p \<noteq> L100 \<and>
    (steps_left p = 0 \<longrightarrow> p = Done \<or> p = Crashed)"
  using assms by (cases p) simp_all

text \<open>
  A cancellation that is final.  The timer has been started once, the flag is set, seconds
  remain, and the thread is in the work phase or, in the break phase, past line 65.  A
  \<^verbatim>\<open>cancel()\<close> in such a state returns true, and whatever the caller (short of a new
  \<^verbatim>\<open>start()\<close>), the thread and the store do afterwards: the flag stays clear; the thread
  never reaches the write of the completion record (lines 97 to 99) nor the chaining
  (line 100); the table holds at most one row of that phase, and differs from the table at
  the call by at most one row; and after at most eleven more statements the thread has
  ended.
\<close>

lemma cancel_past_line_65_is_final:
  fixes evs1 evs2 :: "event list" and tid wm bm :: int
  defines "s1 \<equiv> run_events evs1 (snd (start (PomodoroTimer tid wm bm)))"
  defines "s2 \<equiv> run_events (Cancel # evs2) s1"
  assumes "Start \<notin> set evs1" and "Start \<notin> set evs2"
    and "is_running_flag s1" and "0 < remaining_time s1"
    and "kind (threads s1 ! 0) = Trabajo \<or> pc (threads s1 ! 0) \<notin> {L63, L64, L65}"
  shows "fst (cancel s1) \<and>
         \<not> is_running_flag s2 \<and>
         pc (threads s2 ! 0) \<noteq> L97 \<and> pc (threads s2 ! 0) \<noteq> L100 \<and>
         kind (threads s2 ! 0) = kind (threads s1 ! 0) \<and>
         rows_of_kind (kind (threads s1 ! 0)) s2 \<le> 1 \<and>
         take (length (sessions s1)) (sessions s2) = sessions s1 \<and>
         length (sessions s2) \<le> Suc (length (sessions s1)) \<and>
         (11 \<le> engine_steps 0 evs2 \<longrightarrow> finished (threads s2 ! 0))"
proof -
  have "single_run_inv s1"
    unfolding s1_def using single_run_inv_init assms(3) by (rule single_run_inv_run)
  then have c: "cancelled_inv (kind (threads s1 ! 0)) (sessions s1) (step Cancel s1)"
    using assms(5-7) by (rule cancel_establishes)
  have s2: "s2 = run_events evs2 (step Cancel s1)"
    by (simp add: s2_def)
  from cancelled_inv_run [OF c assms(4)]
  have inv: "cancelled_inv (kind (threads s1 ! 0)) (sessions s1) s2"
    and left: "steps_left (pc (threads s2 ! 0))
      \<le> steps_left (pc (threads (step Cancel s1) ! 0)) - engine_steps 0 evs2"
    unfolding s2 by blast+
  have "steps_left (pc (threads (step Cancel s1) ! 0)) \<le> 11"
    using steps_left_bound [OF cancelled_inv_pc [OF c]] by blast
  with left have z: "11 \<le> engine_steps 0 evs2 \<longrightarrow> steps_left (pc (threads s2 ! 0)) = 0"
    by linarith
  note b = steps_left_bound [OF cancelled_inv_pc [OF inv]]
  from b z have fin: "11 \<le> engine_steps 0 evs2 \<longrightarrow> finished (threads s2 ! 0)"
    unfolding finished_def by auto
  have c1: "fst (cancel s1)"
    using assms(5) by (simp add: cancel_def)
  from c1 cancelled_inv_facts [OF inv] b fin show ?thesis
    by simp
qed

lemma cancel_past_line_65_is_final_example:
  "Start \<notin> set (replicate 10 (Engine 0 StoreOk)) \<and>
   Start \<notin> set (Pause # replicate 11 (Engine 0 StoreOk)) \<and>
   is_running_flag (run_events (replicate 10 (Engine 0 StoreOk)) (snd (start (PomodoroTimer 7 25 5)))) \<and>
   0 < remaining_time (run_events (replicate 10 (Engine 0 StoreOk)) (snd (start (PomodoroTimer 7 25 5)))) \<and>
   kind (threads (run_events (replicate 10 (Engine 0 StoreOk)) (snd (start (PomodoroTimer 7 25 5)))) ! 0)
     = Trabajo \<and>
   11 \<le> engine_steps 0 (Pause # replicate 11 (Engine 0 StoreOk)) \<and>
   finished (threads (run_events (Cancel # Pause # replicate 11 (Engine 0 StoreOk))
     (run_events (replicate 10 (Engine 0 StoreOk)) (snd (start (PomodoroTimer 7 25 5))))) ! 0) \<and>
   rows_of_kind Trabajo (run_events (Cancel # Pause # replicate 11 (Engine 0 StoreOk))
     (run_events (replicate 10 (Engine 0 StoreOk)) (snd (start (PomodoroTimer 7 25 5))))) \<le> 1"
proof -
  define s1 where "s1 = run_events (replicate 10 (Engine 0 StoreOk)) (snd (start (PomodoroTimer 7 25 5)))"
  define s2 where "s2 = run_events (Cancel # Pause # replicate 11 (Engine 0 StoreOk)) s1"
  have e: "s1 =
     \<lparr>task_id = 7, work_seconds = 1500, break_seconds = 300, timer_thread = Some 0,
      is_running_flag = True, is_paused = False, remaining_time = 1499, session_type = Trabajo,
      start_time = Some 0, session_id = Some 1,
      threads = [\<lparr>pc = L76, duration = 1500, kind = Trabajo\<rparr>],
      sessions = [\<lparr>row_task_id = 7, row_start_time = 0, row_end_time = Some 0,
        row_duration_minutes = 25, row_type = Trabajo\<rparr>],
      console = [MsgIniciando Trabajo 7 25, MsgRestantes Trabajo 25 0], clock = 1\<rparr>"
    unfolding s1_def by (simp add: model_defs numeral_eq_Suc)
  have h1: "Start \<notin> set (replicate 10 (Engine 0 StoreOk))"
    and h2: "Start \<notin> set (Pause # replicate 11 (Engine 0 StoreOk))"
    and h6: "11 \<le> engine_steps 0 (Pause # replicate 11 (Engine 0 StoreOk))"
    by (simp_all add: numeral_eq_Suc)
  have h3: "is_running_flag s1" and h4: "0 < remaining_time s1"
    and h5: "kind (threads s1 ! 0) = Trabajo"
    by (simp_all add: e)
  have h5': "kind (threads s1 ! 0) = Trabajo \<or> pc (threads s1 ! 0) \<notin> {L63, L64, L65}"
    using h5 by simp
  note c = cancel_past_line_65_is_final [OF h1 h2 h3 [unfolded s1_def] h4 [unfolded s1_def]
      h5' [unfolded s1_def], folded s1_def, folded s2_def]
  from c h6 have "finished (threads s2 ! 0)"
    by simp
  moreover from c h5 have "rows_of_kind Trabajo s2 \<le> 1"
    by simp
  ultimately show ?thesis
    using h1 h2 h3 h4 h5 h6 unfolding s1_def [symmetric] s2_def [symmetric] by simp
qed

text \<open>
  C4 says that when the timer is cancelled during a phase, the flag cleared before the
  remaining seconds reach 0, the loop exits without writing a completion record.
  \<^verbatim>\<open>cancel()\<close> clears \<^verbatim>\<open>_is_running\<close> to stop the loop, but \<^verbatim>\<open>_run_timer\<close> sets it at line 65,
  also when it is called at line 105 for the break.  For every task and all durations:
  when the thread has executed line 63 of the break, the flag is set (since the work
  phase), \<^verbatim>\<open>_remaining_time\<close> holds the seconds of the break, and the table holds the two
  rows of the work phase; \<^verbatim>\<open>cancel()\<close> returns true and clears the flag; the thread then sets
  it again at line 65, writes the start record of the break, counts all the seconds of the
  break and writes its completion record at lines 97 to 99, the flag still set.
\<close>

theorem C4_cancel_lost_at_break_entry:
  "is_running_flag (at_break_entry tid wm bm) \<and>
   remaining_time (at_break_entry tid wm bm) = break_seconds (PomodoroTimer tid wm bm) \<and>
   threads (at_break_entry tid wm bm) = [\<lparr>pc = L64, duration = bm * 60, kind = Descanso\<rparr>] \<and>
   map row_type (sessions (at_break_entry tid wm bm)) = [Trabajo, Trabajo] \<and>
   fst (cancel (at_break_entry tid wm bm)) \<and>
   \<not> is_running_flag (snd (cancel (at_break_entry tid wm bm))) \<and>
   is_running_flag (cancelled_at_break_entry tid wm bm) \<and>
   clock (cancelled_at_break_entry tid wm bm) = clock (at_break_entry tid wm bm) + nat (bm * 60) \<and>
   threads (cancelled_at_break_entry tid wm bm) = [\<lparr>pc = L100, duration = bm * 60, kind = Descanso\<rparr>] \<and>
   map row_type (sessions (cancelled_at_break_entry tid wm bm)) =
     [Trabajo, Trabajo, Descanso, Descanso] \<and>
   row_end_time (last (sessions (cancelled_at_break_entry tid wm bm))) =
     Some (nat (wm * 60) + nat (bm * 60))"
  by (simp add: at_break_entry_state cancelled_at_break_entry_state cancel_def PomodoroTimer_def)

subsection \<open>C5: a failure of the store\<close>

text \<open>
  C5 says that every failure raised while a session is written is caught and logged and
  does not abort the countdown.  The \<^verbatim>\<open>try\<close> of \<^verbatim>\<open>_save_session\<close> begins at line 40, after
  \<^verbatim>\<open>get_connection()\<close> (line 38): when the connection cannot be opened, the exception
  leaves \<^verbatim>\<open>_save_session\<close> and \<^verbatim>\<open>_run_timer\<close> and ends the thread.  Here that happens at
  the first write (line 74): the thread is dead before the loop, no second is ever
  counted, and the flag \<^verbatim>\<open>_is_running\<close> stays true, whatever the thread is scheduled for
  afterwards.
\<close>

theorem C5_connection_failure_ends_thread:
  "run_events (Engine 0 ConnectFails # map (Engine 0) ocs)
      (engine_runs 6 0 (snd (start (PomodoroTimer tid wm bm)))) =
     \<lparr>task_id = tid,
      work_seconds = wm * 60,
      break_seconds = bm * 60,
      timer_thread = Some 0,
      is_running_flag = True,
      is_paused = False,
      remaining_time = wm * 60,
      session_type = Trabajo,
      start_time = Some 0,
      session_id = None,
      threads = [\<lparr>pc = Crashed, duration = wm * 60, kind = Trabajo\<rparr>],
      sessions = [],
      console = [MsgIniciando Trabajo tid wm],
      clock = 0\<rparr>"
proof -
  define s where "s = step (Engine 0 ConnectFails) (engine_runs 6 0 (snd (start (PomodoroTimer tid wm bm))))"
  have s: "s = \<lparr>task_id = tid,
      work_seconds = wm * 60,
      break_seconds = bm * 60,
      timer_thread = Some 0,
      is_running_flag = True,
      is_paused = False,
      remaining_time = wm * 60,
      session_type = Trabajo,
      start_time = Some 0,
      session_id = None,
      threads = [\<lparr>pc = Crashed, duration = wm * 60, kind = Trabajo\<rparr>],
      sessions = [],
      console = [MsgIniciando Trabajo tid wm],
      clock = 0\<rparr>"
    unfolding s_def by (simp add: model_defs numeral_eq_Suc engine_runs_Suc engine_runs_0)
  have "run_events (map (Engine 0) ocs) s = s"
    by (rule finished_stutters) (simp add: s)
  then show ?thesis
    unfolding run_events.simps s_def [symmetric] by (simp add: s)
qed

subsection \<open>C6: pause\<close>

text \<open>
  C6 lists the state after full completion of the chain among those in which \<^verbatim>\<open>pause()\<close>
  returns false and changes nothing.  Since the flag \<^verbatim>\<open>_is_running\<close> is still true there
  (the defect of C2), \<^verbatim>\<open>pause()\<close> returns true and sets \<^verbatim>\<open>_is_paused\<close>, although the
  thread has returned.
\<close>

theorem C6_pause_after_completed_chain:
  "fst (pause (completed_chain tid wm bm)) \<and>
   \<not> is_paused (completed_chain tid wm bm) \<and>
   is_paused (snd (pause (completed_chain tid wm bm))) \<and>
   pc (threads (completed_chain tid wm bm) ! 0) = Done"
  by (simp add: chain_complete pause_def)

subsection \<open>C7: paused only while running\<close>

lemma flags_inv_init: "flags_inv (PomodoroTimer tid wm bm)"
  by (simp add: flags_inv_def PomodoroTimer_def)

lemma flags_inv_engine:
  assumes "flags_inv s"
  shows "flags_inv (step (Engine i oc) s)"
proof (cases "i < length (threads s)")
  case False
  then show ?thesis using assms by simp
next
  case i: True
  show ?thesis
  proof (cases "Suc i < length (threads s)")
    case True
    with assms have "finished (threads s ! i)"
      by (simp add: flags_inv_def)
    then have "step (Engine i oc) s = s"
      by (intro finished_stutter) (simp add: finished_def)
    with assms show ?thesis by simp
  next
    case False
    with i have last: "length (threads s) = Suc i"
      by simp
    show ?thesis
      using assms last
      by (cases "pc (threads s ! i)")
        (auto simp add: flags_inv_def run_timer_def save_session_def loop_body_def Let_def
          nth_list_update finished_def
          split: store_outcome.splits option.splits)
  qed
qed

lemma flags_inv_step:
  assumes "flags_inv s" and "e = Start \<longrightarrow> is_running_flag s \<or> list_all finished (threads s)"
  shows "flags_inv (step e s)"
proof (cases e)
  case Start
  with assms show ?thesis
    by (auto simp add: flags_inv_def start_def nth_append list_all_length finished_def)
next
  case Pause
  with assms show ?thesis by (auto simp add: flags_inv_def pause_def)
next
  case Resume
  with assms show ?thesis by (auto simp add: flags_inv_def resume_def)
next
  case Cancel
  with assms show ?thesis by (auto simp add: flags_inv_def cancel_def)
next
  case (Engine i oc)
  with assms flags_inv_engine show ?thesis by simp
qed

lemma flags_inv_run:
  assumes "flags_inv s" and "one_engine_at_a_time evs s"
  shows "flags_inv (run_events evs s)"
  using assms
proof (induction evs arbitrary: s)
  case Nil
  then show ?case by simp
next
  case (Cons e evs)
  from Cons.prems have "flags_inv (step e s)"
    by (intro flags_inv_step) simp_all
  with Cons.IH Cons.prems show ?case by simp
qed

text \<open>
  With one engine at a time the flags are consistent: in every state reached by an
  execution in which \<^verbatim>\<open>start()\<close> never creates a thread while an earlier thread is still
  executing, \<^verbatim>\<open>_is_paused\<close> is true only if \<^verbatim>\<open>_is_running\<close> is.
\<close>

lemma one_engine_paused_only_while_running:
  assumes "one_engine_at_a_time evs (PomodoroTimer tid wm bm)"
  shows "is_paused (run_events evs (PomodoroTimer tid wm bm)) \<longrightarrow>
         is_running_flag (run_events evs (PomodoroTimer tid wm bm))"
proof -
  have "flags_inv (run_events evs (PomodoroTimer tid wm bm))"
    using flags_inv_init assms by (rule flags_inv_run)
  then show ?thesis
    by (simp add: flags_inv_def)
qed

text \<open>
  C7 says that in every state reachable by the public methods and the engine's
  statements, \<^verbatim>\<open>_is_paused\<close> is never true while \<^verbatim>\<open>_is_running\<close> is false.  \<^verbatim>\<open>cancel()\<close>
  clears the flag and returns without waiting for the thread (line 149), and the guard
  of \<^verbatim>\<open>start()\<close> reads that flag, so a \<^verbatim>\<open>start()\<close> after it creates a second thread while the
  first is still in its cancellation branch.  In the execution below the first thread
  has executed lines 63 to 74 when \<^verbatim>\<open>cancel()\<close> is called, and leaves the loop for line
  109; \<^verbatim>\<open>start()\<close> returns true, the second thread executes lines 63 to 65, \<^verbatim>\<open>pause()\<close>
  returns true and sets \<^verbatim>\<open>_is_paused\<close>; then the first thread executes line 109 and clears
  \<^verbatim>\<open>_is_running\<close>: the timer is paused and not running.
\<close>

theorem C7_paused_while_not_running:
  "is_paused (run_events
      ([Start] @ replicate 7 (Engine 0 StoreOk) @ [Cancel] @ replicate 4 (Engine 0 StoreOk) @
       [Start] @ replicate 3 (Engine 1 StoreOk) @ [Pause, Engine 0 StoreOk])
      (PomodoroTimer 7 25 5)) \<and>
   \<not> is_running_flag (run_events
      ([Start] @ replicate 7 (Engine 0 StoreOk) @ [Cancel] @ replicate 4 (Engine 0 StoreOk) @
       [Start] @ replicate 3 (Engine 1 StoreOk) @ [Pause, Engine 0 StoreOk])
      (PomodoroTimer 7 25 5))"
  by (simp add: model_defs numeral_eq_Suc)

subsection \<open>C8: calling cancel twice, calling start twice\<close>

text \<open>
  With the flag set, \<^verbatim>\<open>cancel()\<close> returns true and a second \<^verbatim>\<open>cancel()\<close> with nothing in
  between returns false and changes nothing; and \<^verbatim>\<open>start()\<close> returns false and changes
  nothing.
\<close>

lemma cancel_then_cancel:
  assumes "is_running_flag s"
  shows "fst (cancel s) \<and> cancel (snd (cancel s)) = (False, snd (cancel s))"
  using assms by (simp add: cancel_def)

lemma start_with_flag_set:
  assumes "is_running_flag s"
  shows "start s = (False, s)"
  using assms by (simp add: start_def)

text \<open>
  C8 says that \<^verbatim>\<open>start()\<close> called twice in succession returns true then false, the second
  call performing no action, and that \<^verbatim>\<open>cancel()\<close> called twice in succession on a running
  timer returns true then false.  \<^verbatim>\<open>start()\<close> does not set the flag its guard reads (the
  thread does, at line 65), so on a new timer, for every task and all durations, a second
  \<^verbatim>\<open>start()\<close> right after the first returns true as well and creates a second thread.  And
  a \<^verbatim>\<open>cancel()\<close> as the break begins is followed by line 65, which sets the flag again: a
  second \<^verbatim>\<open>cancel()\<close>, two statements of the thread (lines 64 and 65) after the first,
  returns true as well.
\<close>

theorem C8_second_call_returns_true:
  "fst (start (PomodoroTimer tid wm bm)) \<and>
   fst (start (snd (start (PomodoroTimer tid wm bm)))) \<and>
   threads (snd (start (snd (start (PomodoroTimer tid wm bm))))) =
     [\<lparr>pc = L63, duration = wm * 60, kind = Trabajo\<rparr>,
      \<lparr>pc = L63, duration = wm * 60, kind = Trabajo\<rparr>] \<and>
   is_running_flag (at_break_entry tid wm bm) \<and>
   fst (cancel (at_break_entry tid wm bm)) \<and>
   fst (cancel (engine_runs 2 0 (snd (cancel (at_break_entry tid wm bm)))))"
  by (simp add: at_break_entry_state model_defs numeral_2_eq_2 engine_runs_Suc engine_runs_0)

subsection \<open>C9: is_running right after start\<close>

text \<open>
  C9 says that \<^verbatim>\<open>is_running()\<close> is true as soon as \<^verbatim>\<open>start()\<close> has returned true.  The flag
  is set by the thread (line 65), not by \<^verbatim>\<open>start\<close>: in the state in which \<^verbatim>\<open>start()\<close>
  returns, before the thread has executed anything, \<^verbatim>\<open>is_running()\<close> is false.  The loop
  of \<^verbatim>\<open>handle_start_pomodoro\<close> (core/commands.py, lines 66 to 74) relies on the claim.
\<close>

theorem C9_not_running_when_start_returns:
  "fst (start (PomodoroTimer tid wm bm)) \<and> \<not> is_running (snd (start (PomodoroTimer tid wm bm)))"
  by (simp add: model_defs)

subsection \<open>C10: a work phase of zero minutes\<close>

text \<open>
  C10: with \<^verbatim>\<open>work_min = 0\<close>, \<^verbatim>\<open>start()\<close> returns true; the thread writes the first record
  (lines 63 to 74), finds the loop condition false at its first operand and goes to line
  96 without a pass through the body, writes the second record (line 99), and enters
  \<^verbatim>\<open>_run_timer\<close> for the break (line 105).  No second has been slept and no exception
  raised.
\<close>

theorem C10_zero_work_minutes:
  "fst (start (PomodoroTimer tid 0 bm)) \<and>
   pc (threads (engine_runs 7 0 (snd (start (PomodoroTimer tid 0 bm)))) ! 0) = L76 \<and>
   pc (threads (engine_runs 8 0 (snd (start (PomodoroTimer tid 0 bm)))) ! 0) = L96 \<and>
   pc (threads (engine_runs 10 0 (snd (start (PomodoroTimer tid 0 bm)))) ! 0) = L100 \<and>
   threads (engine_runs 11 0 (snd (start (PomodoroTimer tid 0 bm)))) =
     [\<lparr>pc = L63, duration = bm * 60, kind = Descanso\<rparr>] \<and>
   sessions (engine_runs 7 0 (snd (start (PomodoroTimer tid 0 bm)))) =
     [\<lparr>row_task_id = tid, row_start_time = 0, row_end_time = Some 0,
       row_duration_minutes = 0, row_type = Trabajo\<rparr>] \<and>
   sessions (engine_runs 11 0 (snd (start (PomodoroTimer tid 0 bm)))) =
     [\<lparr>row_task_id = tid, row_start_time = 0, row_end_time = Some 0,
       row_duration_minutes = 0, row_type = Trabajo\<rparr>,
      \<lparr>row_task_id = tid, row_start_time = 0, row_end_time = Some 0,
       row_duration_minutes = 0, row_type = Trabajo\<rparr>] \<and>
   clock (engine_runs 11 0 (snd (start (PomodoroTimer tid 0 bm)))) = 0 \<and>
   console (engine_runs 11 0 (snd (start (PomodoroTimer tid 0 bm)))) =
     [MsgIniciando Trabajo tid 0, MsgCompletada Trabajo, MsgIniciandoDescanso]"
  by (simp add: model_defs numeral_eq_Suc engine_runs_Suc engine_runs_0)

end
